theory Spec2Isabelle
  imports Complex_Main "HOL-Library.Multiset"
begin

section \<open>Strings of the platform\<close>

text \<open>
  Strings are byte strings. The platform operations used by the sources are modelled on
  ASCII: white space is the six ASCII white-space characters, and case conversion acts on
  the ASCII letters only.
\<close>

definition is_space :: "char \<Rightarrow> bool" where
  "is_space c = (c = CHR '' '' \<or> c = CHR 0x09 \<or> c = CHR 0x0A \<or> c = CHR 0x0B
     \<or> c = CHR 0x0C \<or> c = CHR 0x0D)"

definition is_upper :: "char \<Rightarrow> bool" where
  "is_upper c = (65 \<le> (of_char c :: nat) \<and> (of_char c :: nat) \<le> 90)"

definition is_lower :: "char \<Rightarrow> bool" where
  "is_lower c = (97 \<le> (of_char c :: nat) \<and> (of_char c :: nat) \<le> 122)"

definition is_digit :: "char \<Rightarrow> bool" where
  "is_digit c = (48 \<le> (of_char c :: nat) \<and> (of_char c :: nat) \<le> 57)"

definition is_alnum :: "char \<Rightarrow> bool" where
  "is_alnum c = (is_digit c \<or> is_upper c \<or> is_lower c)"

definition is_ascii :: "char \<Rightarrow> bool" where
  "is_ascii c = ((of_char c :: nat) < 128)"

definition lower_char :: "char \<Rightarrow> char" where
  "lower_char c = (if is_upper c then char_of ((of_char c :: nat) + 32) else c)"



definition trim :: "string \<Rightarrow> string" where
  "trim s = rev (dropWhile is_space (rev (dropWhile is_space s)))"

definition startsWith :: "string \<Rightarrow> string \<Rightarrow> bool" where
  "startsWith s p = (take (length p) s = p)"


text \<open>\<open>s.includes(p)\<close>: \<open>p\<close> occurs in \<open>s\<close> as a contiguous substring.\<close>

fun str_includes :: "string \<Rightarrow> string \<Rightarrow> bool" where
  "str_includes [] p = (p = [])"
| "str_includes (c # cs) p = (startsWith (c # cs) p \<or> str_includes cs p)"


text \<open>\<open>s.split(c)\<close> with a one-character separator; the result is never empty.\<close>

fun split_char :: "char \<Rightarrow> string \<Rightarrow> string list" where
  "split_char sep [] = [[]]"
| "split_char sep (c # cs) =
     (if c = sep then [] # split_char sep cs
      else (case split_char sep cs of [] \<Rightarrow> [[c]] | w # ws \<Rightarrow> (c # w) # ws))"

definition join :: "string \<Rightarrow> string list \<Rightarrow> string" where
  "join sep xs = (case xs of [] \<Rightarrow> [] | y # ys \<Rightarrow> foldl (\<lambda>acc w. acc @ sep @ w) y ys)"

text \<open>
  \<open>parseInt(s)\<close> without a radix: leading white space is skipped, a sign is read, a
  \<open>0x\<close> prefix selects radix 16, and the longest prefix of digits is the value.
  \<open>None\<close> is \<open>NaN\<close>.
\<close>

definition digit_value :: "char \<Rightarrow> nat option" where
  "digit_value c =
     (let n = (of_char c :: nat) in
      if 48 \<le> n \<and> n \<le> 57 then Some (n - 48)
      else if 97 \<le> n \<and> n \<le> 102 then Some (n - 87)
      else if 65 \<le> n \<and> n \<le> 70 then Some (n - 55)
      else None)"

definition digit_nat :: "char \<Rightarrow> nat" where
  "digit_nat c = (case digit_value c of None \<Rightarrow> 0 | Some v \<Rightarrow> v)"




section \<open>The platform's URL objects\<close>

text \<open>
  The sources build \<open>URL\<close> objects with the platform's parser, which is not part of the
  repository. A URL object is modelled by the components the sources read or write.
  The functions of the repository take the parser as a parameter \<open>parse\<close>; \<open>None\<close> stands
  for the \<open>TypeError\<close> that \<open>new URL\<close> throws.
\<close>

record URL =
  protocol :: string
  hostname :: string
  pathname :: string
  query :: "string option"
  fragment :: "string option"


subsection \<open>Query strings: \<open>application/x-www-form-urlencoded\<close>\<close>

definition is_hex :: "char \<Rightarrow> bool" where
  "is_hex c = (digit_value c \<noteq> None)"


fun percent_decode :: "string \<Rightarrow> string" where
  "percent_decode (c # h # l # cs) =
     (if c = CHR ''%'' \<and> is_hex h \<and> is_hex l
      then char_of (digit_nat h * 16 + digit_nat l)
             # percent_decode cs
      else c # percent_decode (h # l # cs))"
| "percent_decode cs = cs"









subsection \<open>A reference parser\<close>

text \<open>
  \<open>parseURL\<close> models the platform's parser on \<open>http\<close> and \<open>https\<close> URLs that are
  written in the characters the parser keeps as they are: a lower-case scheme, a host of
  lower-case labels without port or credentials, a path without dot segments and escapes,
  and printable ASCII elsewhere. On every other string it answers \<open>None\<close>.
\<close>

definition split_first :: "char \<Rightarrow> string \<Rightarrow> string \<times> string option" where
  "split_first c s =
     (let a = takeWhile (\<lambda>x. x \<noteq> c) s; b = dropWhile (\<lambda>x. x \<noteq> c) s
      in (a, if b = [] then None else Some (tl b)))"

definition host_char :: "char \<Rightarrow> bool" where
  "host_char c = (is_lower c \<or> is_digit c \<or> c = CHR ''-'')"

definition valid_label :: "string \<Rightarrow> bool" where
  "valid_label l = (l \<noteq> [] \<and> list_all host_char l \<and> \<not> startsWith l ''xn--'')"

definition valid_host :: "string \<Rightarrow> bool" where
  "valid_host h =
     (let ls = split_char (CHR ''.'') h
      in list_all valid_label ls \<and> list_all is_lower (take 1 (last ls)))"

definition path_char :: "char \<Rightarrow> bool" where
  "path_char c = (is_alnum c \<or> c \<in> set ''-._~!$&()*+,;=:@/'')"

definition valid_path :: "string \<Rightarrow> bool" where
  "valid_path p =
     (list_all path_char p
      \<and> list_all (\<lambda>seg. seg \<noteq> ''.'' \<and> seg \<noteq> ''..'') (split_char (CHR ''/'') p))"

definition query_char :: "char \<Rightarrow> bool" where
  "query_char c = (path_char c \<or> c = CHR ''?'' \<or> c = CHR ''%'')"

definition valid_query :: "string option \<Rightarrow> bool" where
  "valid_query q =
     (case q of None \<Rightarrow> True
      | Some s \<Rightarrow> list_all query_char s \<and> list_all is_ascii (percent_decode s))"

definition fragment_char :: "char \<Rightarrow> bool" where
  "fragment_char c = (query_char c \<or> c = CHR ''#'' \<or> c = CHR 0x27)"

definition valid_fragment :: "string option \<Rightarrow> bool" where
  "valid_fragment f = (case f of None \<Rightarrow> True | Some s \<Rightarrow> list_all fragment_char s)"

definition parseURL :: "string \<Rightarrow> URL option" where
  "parseURL s =
     (let (s1, frag) = split_first (CHR ''#'') s;
          (s2, qry) = split_first (CHR ''?'') s1;
          pr = (if startsWith s2 ''http://'' then ''http:''
                else if startsWith s2 ''https://'' then ''https:'' else []);
          rest = drop (length pr + 2) s2;
          h = takeWhile (\<lambda>c. c \<noteq> CHR ''/'') rest;
          p = dropWhile (\<lambda>c. c \<noteq> CHR ''/'') rest
      in if pr \<noteq> [] \<and> valid_host h \<and> valid_path p \<and> valid_query qry \<and> valid_fragment frag
         then Some \<lparr>protocol = pr, hostname = h, pathname = (if p = [] then ''/'' else p),
                    query = qry, fragment = frag\<rparr>
         else None)"

section \<open>Crawler: URL normalisation\<close>


section \<open>Crawler: robots.txt\<close>








fun allowed_by_rules :: "string \<Rightarrow> string list \<Rightarrow> bool" where
  "allowed_by_rules path [] = True"
| "allowed_by_rules path (rule # rules) =
     (if rule = ''/'' then False
      else if startsWith path rule then False
      else allowed_by_rules path rules)"

definition isUrlAllowed :: "(string \<Rightarrow> URL option) \<Rightarrow> string \<Rightarrow> string list \<Rightarrow> bool" where
  "isUrlAllowed parse url rules =
     (case parse url of None \<Rightarrow> False | Some parsed \<Rightarrow> allowed_by_rules (pathname parsed) rules)"

section \<open>Arrays of the platform\<close>



section \<open>Regular expressions of the ranker\<close>


definition is_line_terminator :: "char \<Rightarrow> bool" where
  "is_line_terminator c = (c = CHR 0x0A \<or> c = CHR 0x0D)"




section \<open>Link ranker\<close>

text \<open>
  \<open>ExtractedLink\<close> is declared in the extractor, which is not among the sources; its
  fields are those the ranker and the crawler read.
\<close>

record link_attributes =
  attr_title :: "string option"
  attr_rel :: "string option"
  attr_type :: "string option"

record ExtractedLink =
  url :: string
  anchorText :: string
  linkContext :: string
  attributes :: link_attributes

datatype LinkCategory =
  budget | finance | procurement | contact | meeting | policy | project | department
  | document | other

record RankedLink = ExtractedLink +
  relevanceScore :: real
  category :: LinkCategory
  rationale :: string

record RankerConfig =
  priorityKeywords :: "string list"
  minRelevanceScore :: real
  batchSize :: nat


text \<open>\<open>Partial<RankerConfig>\<close>, and the merge \<open>{ ...DEFAULT_CONFIG, ...config }\<close>.\<close>

record PartialRankerConfig =
  opt_priorityKeywords :: "string list option"
  opt_minRelevanceScore :: "real option"
  opt_batchSize :: "nat option"


text \<open>One entry of the classification service's answer.\<close>

record ranking =
  ranking_index :: int
  ranking_relevanceScore :: real
  ranking_category :: LinkCategory
  ranking_rationale :: string

text \<open>
  The classification service (\<open>chatCompletion\<close>) is outside the repository. It is a
  parameter: from the start index of the batch, the configuration and the batch, whose
  prompts it receives, it gives the ranked entries, or \<open>None\<close> when the call throws.
\<close>

type_synonym classifier = "nat \<Rightarrow> RankerConfig \<Rightarrow> ExtractedLink list \<Rightarrow> ranking list option"












text \<open>A classification service whose every call throws.\<close>

definition failing_classifier :: classifier where
  "failing_classifier startIndex config links = None"

section \<open>Document chunker\<close>

text \<open>
  The tokenizer (\<open>encode\<close> of the tokenizer library) is outside the repository: the
  functions of the chunker take \<open>countTokens\<close> as a parameter.
\<close>

definition MAX_CHUNK_TOKENS :: nat where "MAX_CHUNK_TOKENS = 1000"
definition MIN_CHUNK_TOKENS :: nat where "MIN_CHUNK_TOKENS = 100"
definition OVERLAP_TOKENS :: nat where "OVERLAP_TOKENS = 50"

record md_section =
  title :: string
  content :: string

record ChunkResult =
  sectionTitle :: string
  content :: string
  tokenCount :: nat
  chunkIndex :: nat

text \<open>\<open>s.slice(a, b)\<close> and \<open>s.indexOf(c, from)\<close> (\<open>None\<close> is \<open>-1\<close>).\<close>

definition slice :: "nat \<Rightarrow> nat \<Rightarrow> 'a list \<Rightarrow> 'a list" where
  "slice a b s = take (b - a) (drop a s)"

fun index_from :: "char \<Rightarrow> nat \<Rightarrow> string \<Rightarrow> nat option" where
  "index_from c pos [] = None"
| "index_from c pos (x # xs) = (if x = c then Some pos else index_from c (Suc pos) xs)"

definition indexOf :: "string \<Rightarrow> char \<Rightarrow> nat \<Rightarrow> nat option" where
  "indexOf s c from = index_from c from (drop from s)"

text \<open>
  A match of \<open>/^(#{2,3})\s+(.+)$/gm\<close> at the start of a line: two or three hashes, a
  run of white space (which may contain line breaks) and the rest of the line as the
  title. The result is the title group and the length of the match. When the white
  space runs to the end of the input, the white-space run gives back characters until
  the title group can start at one that is not a line terminator.
\<close>

definition header_hashes :: "string \<Rightarrow> nat option" where
  "header_hashes s =
     (if startsWith s ''###'' then Some 3 else if startsWith s ''##'' then Some 2 else None)"

definition match_header :: "string \<Rightarrow> (string \<times> nat) option" where
  "match_header s =
     (case header_hashes s of
        None \<Rightarrow> None
      | Some h \<Rightarrow>
          let after = drop h s;
              ws = takeWhile is_space after;
              rest = dropWhile is_space after
          in if ws = [] then None
             else if rest \<noteq> []
             then (let t = takeWhile (\<lambda>c. \<not> is_line_terminator c) rest
                   in Some (t, h + length ws + length t))
             else (let back = rev (tl ws);
                       given_back = length (takeWhile is_line_terminator back)
                   in case dropWhile is_line_terminator back of
                        [] \<Rightarrow> None
                      | c # _ \<Rightarrow> Some ([c], h + length ws - given_back)))"

text \<open>
  The \<open>exec\<close> loop of \<open>splitByHeaders\<close>: the index and the trimmed title of every
  header, scanning from position \<open>pos\<close>; \<open>bol\<close> says that \<open>pos\<close> is the start of a line.
  The number of characters still to skip inside a match is \<open>skip\<close>.
\<close>

fun header_matches :: "nat \<Rightarrow> bool \<Rightarrow> nat \<Rightarrow> string \<Rightarrow> (nat \<times> string) list" where
  "header_matches pos bol skip [] = []"
| "header_matches pos bol skip (c # cs) =
     (if skip > 0 then header_matches (Suc pos) False (skip - 1) cs
      else if bol
      then (case match_header (c # cs) of
              Some (t, len) \<Rightarrow> (pos, trim t) # header_matches (Suc pos) False (len - 1) cs
            | None \<Rightarrow> header_matches (Suc pos) (is_line_terminator c) 0 cs)
      else header_matches (Suc pos) (is_line_terminator c) 0 cs)"

text \<open>The loop over the matches in \<open>splitByHeaders\<close>.\<close>

fun header_sections :: "string \<Rightarrow> (nat \<times> string) list \<Rightarrow> md_section list" where
  "header_sections markdown [] = []"
| "header_sections markdown ((startIndex, t) # rest) =
     (let endIndex = (case rest of [] \<Rightarrow> length markdown | (next_index, _) # _ \<Rightarrow> next_index);
          contentStart = (case indexOf markdown (CHR 0x0A) startIndex of
                            Some headerLineEnd \<Rightarrow> headerLineEnd + 1
                          | None \<Rightarrow> startIndex);
          c = trim (slice contentStart endIndex markdown)
      in (if c \<noteq> [] then [\<lparr>title = t, content = c\<rparr>] else [])
         @ header_sections markdown rest)"

definition splitByHeaders :: "string \<Rightarrow> md_section list" where
  "splitByHeaders markdown =
     (let matches = header_matches 0 True 0 markdown
      in case matches of
           [] \<Rightarrow> [\<lparr>title = ''Document'', content = trim markdown\<rparr>]
         | (first_index, _) # _ \<Rightarrow>
             (let introContent = trim (slice 0 first_index markdown)
              in if first_index > 0 \<and> introContent \<noteq> []
                 then [\<lparr>title = ''Introduction'', content = introContent\<rparr>] else [])
             @ header_sections markdown matches)"

text \<open>\<open>text.split(/\n\n+/)\<close>: the pieces between runs of two or more line feeds.\<close>

fun split_blank_lines :: "bool \<Rightarrow> string \<Rightarrow> string list" where
  "split_blank_lines skipping [] = [[]]"
| "split_blank_lines skipping (c # cs) =
     (if skipping \<and> c = CHR 0x0A then split_blank_lines True cs
      else if c = CHR 0x0A \<and> take 1 cs = [CHR 0x0A] then [] # split_blank_lines True cs
      else (case split_blank_lines False cs of
              [] \<Rightarrow> [[c]]
            | w # ws \<Rightarrow> (c # w) # ws))"

definition splitByParagraphs :: "string \<Rightarrow> string list" where
  "splitByParagraphs t =
     filter (\<lambda>p. length p > 0) (map trim (split_blank_lines False t))"

text \<open>\<open>text.split(/\s+/)\<close>: the pieces between runs of white space.\<close>

fun split_ws :: "bool \<Rightarrow> string \<Rightarrow> string \<Rightarrow> string list" where
  "split_ws skipping cur [] = [cur]"
| "split_ws skipping cur (c # cs) =
     (if is_space c then (if skipping then split_ws True cur cs else cur # split_ws True [] cs)
      else split_ws False (cur @ [c]) cs)"

text \<open>
  \<open>text.split(/(?<=[.!?])\s+(?=[A-Z])/g)\<close>: a separator is a run of white space that
  follows one of \<open>.\<close>, \<open>!\<close>, \<open>?\<close> and is followed by an upper-case letter.
\<close>

definition sentence_end :: "char \<Rightarrow> bool" where
  "sentence_end c = (c = CHR ''.'' \<or> c = CHR ''!'' \<or> c = CHR ''?'')"

definition upper_follows :: "string \<Rightarrow> bool" where
  "upper_follows s = (case dropWhile is_space s of [] \<Rightarrow> False | d # _ \<Rightarrow> is_upper d)"

fun split_sentences :: "bool \<Rightarrow> bool \<Rightarrow> string \<Rightarrow> string \<Rightarrow> string list" where
  "split_sentences skipping after_end cur [] = [cur]"
| "split_sentences skipping after_end cur (c # cs) =
     (if skipping \<and> is_space c then split_sentences True False cur cs
      else if is_space c \<and> after_end \<and> upper_follows (c # cs)
      then cur # split_sentences True False [] cs
      else split_sentences False (sentence_end c) (cur @ [c]) cs)"

text \<open>The loop of \<open>splitByTokenCount\<close> over the words, and the function.\<close>

fun splitByTokenCount_loop ::
  "(string \<Rightarrow> nat) \<Rightarrow> string list \<Rightarrow> string list \<Rightarrow> string list \<Rightarrow> nat \<Rightarrow> string list" where
  "splitByTokenCount_loop countTokens [] chunks currentChunk currentTokens =
     (if length currentChunk > 0 then chunks @ [join '' '' currentChunk] else chunks)"
| "splitByTokenCount_loop countTokens (word # ws) chunks currentChunk currentTokens =
     (let wordTokens = countTokens (word @ '' '')
      in if currentTokens + wordTokens > MAX_CHUNK_TOKENS \<and> length currentChunk > 0
         then splitByTokenCount_loop countTokens ws (chunks @ [join '' '' currentChunk])
                [word] wordTokens
         else splitByTokenCount_loop countTokens ws chunks (currentChunk @ [word])
                (currentTokens + wordTokens))"

definition splitByTokenCount :: "(string \<Rightarrow> nat) \<Rightarrow> string \<Rightarrow> string list" where
  "splitByTokenCount countTokens t =
     splitByTokenCount_loop countTokens (split_ws False [] t) [] [] 0"

text \<open>The loop of \<open>splitOversizedParagraph\<close> over the sentences, and the function.\<close>

fun splitOversizedParagraph_loop ::
  "(string \<Rightarrow> nat) \<Rightarrow> string list \<Rightarrow> string list \<Rightarrow> string \<Rightarrow> nat \<Rightarrow> string list" where
  "splitOversizedParagraph_loop countTokens [] chunks currentChunk currentTokens =
     (if trim currentChunk \<noteq> [] then chunks @ [trim currentChunk] else chunks)"
| "splitOversizedParagraph_loop countTokens (sentence # ss) chunks currentChunk currentTokens =
     (let sentenceTokens = countTokens sentence
      in if sentenceTokens > MAX_CHUNK_TOKENS
         then splitOversizedParagraph_loop countTokens ss
                ((if currentChunk \<noteq> [] then chunks @ [trim currentChunk] else chunks)
                   @ splitByTokenCount countTokens sentence)
                [] 0
         else if currentTokens + sentenceTokens > MAX_CHUNK_TOKENS
         then splitOversizedParagraph_loop countTokens ss
                (if currentChunk \<noteq> [] then chunks @ [trim currentChunk] else chunks)
                sentence sentenceTokens
         else splitOversizedParagraph_loop countTokens ss chunks
                (currentChunk @ (if currentChunk \<noteq> [] then '' '' else []) @ sentence)
                (currentTokens + sentenceTokens))"

definition splitOversizedParagraph :: "(string \<Rightarrow> nat) \<Rightarrow> string \<Rightarrow> string list" where
  "splitOversizedParagraph countTokens t =
     (if countTokens t \<le> MAX_CHUNK_TOKENS then [t]
      else let sentences = filter (\<lambda>s. length (trim s) > 0) (split_sentences False False [] t)
           in if length sentences > 1
              then splitOversizedParagraph_loop countTokens sentences [] [] 0
              else splitByTokenCount countTokens t)"

fun mergeSmallSections_loop ::
  "(string \<Rightarrow> nat) \<Rightarrow> md_section list \<Rightarrow> md_section list \<Rightarrow> md_section list" where
  "mergeSmallSections_loop countTokens [] merged = merged"
| "mergeSmallSections_loop countTokens (s # ss) merged =
     (if countTokens (md_section.content s) < MIN_CHUNK_TOKENS \<and> length merged > 0
      then mergeSmallSections_loop countTokens ss
             (butlast merged
                @ [(last merged)\<lparr>md_section.content :=
                      md_section.content (last merged) @ [CHR 0x0A, CHR 0x0A] @ md_section.content s\<rparr>])
      else mergeSmallSections_loop countTokens ss (merged @ [s]))"

definition mergeSmallSections :: "(string \<Rightarrow> nat) \<Rightarrow> md_section list \<Rightarrow> md_section list" where
  "mergeSmallSections countTokens sections = mergeSmallSections_loop countTokens sections []"

text \<open>The expansion of the oversized paragraphs in \<open>splitLargeSection\<close>.\<close>

definition expandParagraphs :: "(string \<Rightarrow> nat) \<Rightarrow> string list \<Rightarrow> string list" where
  "expandParagraphs countTokens paragraphs =
     concat (map (\<lambda>para. if countTokens para > MAX_CHUNK_TOKENS
                          then splitOversizedParagraph countTokens para else [para]) paragraphs)"

definition chunk_title :: "string \<Rightarrow> nat \<Rightarrow> string" where
  "chunk_title t chunkNum = (if chunkNum = 0 then t else t @ '' (continued)'')"

text \<open>\<open>words.slice(-n)\<close>: the last \<open>n\<close> elements.\<close>

definition slice_last :: "nat \<Rightarrow> 'a list \<Rightarrow> 'a list" where
  "slice_last n xs = drop (length xs - n) xs"

text \<open>
  The packing loop of \<open>splitLargeSection\<close>; the state is \<open>chunks\<close>, \<open>currentChunk\<close>,
  \<open>currentTokens\<close> and \<open>chunkNum\<close>, and the last chunk is pushed after the loop.
\<close>

fun splitLargeSection_loop ::
  "(string \<Rightarrow> nat) \<Rightarrow> string \<Rightarrow> nat \<Rightarrow> string list \<Rightarrow> ChunkResult list \<Rightarrow> string \<Rightarrow> nat \<Rightarrow> nat
     \<Rightarrow> ChunkResult list" where
  "splitLargeSection_loop countTokens t startIndex [] chunks currentChunk currentTokens chunkNum =
     (if trim currentChunk \<noteq> []
      then chunks @ [\<lparr>sectionTitle = chunk_title t chunkNum, content = trim currentChunk,
                       tokenCount = countTokens currentChunk,
                       chunkIndex = startIndex + chunkNum\<rparr>]
      else chunks)"
| "splitLargeSection_loop countTokens t startIndex (para # ps) chunks currentChunk currentTokens chunkNum =
     (let paraTokens = countTokens para
      in if currentTokens + paraTokens > MAX_CHUNK_TOKENS \<and> currentChunk \<noteq> []
         then (let words = split_ws False [] currentChunk;
                   overlapWords = slice_last (OVERLAP_TOKENS div 2) words;
                   newChunk = join '' '' overlapWords @ [CHR 0x0A, CHR 0x0A] @ para
               in splitLargeSection_loop countTokens t startIndex ps
                    (chunks @ [\<lparr>sectionTitle = chunk_title t chunkNum,
                                 content = trim currentChunk,
                                 tokenCount = currentTokens,
                                 chunkIndex = startIndex + chunkNum\<rparr>])
                    newChunk (countTokens newChunk) (chunkNum + 1))
         else splitLargeSection_loop countTokens t startIndex ps chunks
                (currentChunk @ (if currentChunk \<noteq> [] then [CHR 0x0A, CHR 0x0A] else []) @ para)
                (currentTokens + paraTokens) chunkNum)"

definition splitLargeSection :: "(string \<Rightarrow> nat) \<Rightarrow> string \<Rightarrow> string \<Rightarrow> nat \<Rightarrow> ChunkResult list" where
  "splitLargeSection countTokens t c startIndex =
     splitLargeSection_loop countTokens t startIndex
       (expandParagraphs countTokens (splitByParagraphs c)) [] [] 0 0"

text \<open>The loop of \<open>chunkDocument\<close> over the sections, and the function.\<close>

fun chunkDocument_loop ::
  "(string \<Rightarrow> nat) \<Rightarrow> md_section list \<Rightarrow> ChunkResult list \<Rightarrow> nat \<Rightarrow> ChunkResult list" where
  "chunkDocument_loop countTokens [] chunks chunkIndex' = chunks"
| "chunkDocument_loop countTokens (s # ss) chunks chunkIndex' =
     (let tokens = countTokens (md_section.content s)
      in if tokens > MAX_CHUNK_TOKENS
         then (let subChunks = splitLargeSection countTokens (title s) (md_section.content s) chunkIndex'
               in chunkDocument_loop countTokens ss (chunks @ subChunks)
                    (chunkIndex' + length subChunks))
         else chunkDocument_loop countTokens ss
                (chunks @ [\<lparr>sectionTitle = title s, content = md_section.content s,
                             tokenCount = tokens, chunkIndex = chunkIndex'\<rparr>])
                (chunkIndex' + 1))"

definition chunkDocument :: "(string \<Rightarrow> nat) \<Rightarrow> string \<Rightarrow> ChunkResult list" where
  "chunkDocument countTokens markdown =
     (if length (trim markdown) = 0 then []
      else chunkDocument_loop countTokens
             (mergeSmallSections countTokens (splitByHeaders markdown)) [] 0)"

text \<open>A stand-in tokenizer for running the chunker: one token for every word.\<close>

definition word_count :: "string \<Rightarrow> nat" where
  "word_count s = length (filter (\<lambda>w. w \<noteq> []) (split_ws False [] s))"

section \<open>Crawler\<close>

text \<open>
  \<open>PageContent\<close> is declared in the extractor, which is not among the sources. The
  fields \<open>url\<close> and \<open>title\<close> of a page are named \<open>page_url\<close> and \<open>page_title\<close> here.
\<close>

record PageContent =
  page_url :: string
  page_title :: string
  markdown :: string
  links :: "ExtractedLink list"

text \<open>
  The configuration after the merge with the defaults. \<open>maxDepth\<close> and \<open>maxPages\<close> are
  counts (\<open>0 = only seed URL, 1 = seed + one level\<close>), modelled as natural numbers.
  \<open>requestDelayMs\<close> and \<open>concurrency\<close> have no effect on what is crawled: the loop
  sleeps for the delay and never reads the concurrency.
\<close>

record CrawlerConfig =
  maxDepth :: nat
  maxPages :: nat
  minScoreToFollow :: real
  requestDelayMs :: nat
  concurrency :: nat
  useLlmRanking :: bool
  rankerConfig :: PartialRankerConfig
  sameDomainOnly :: bool

record CrawlProgress =
  pagesProcessed :: nat
  pagesQueued :: nat
  linksFound :: nat
  highValueLinksFound :: nat
  currentUrl :: string
  currentDepth :: nat

record QueueItem =
  item_url :: string
  depth :: nat
  parentUrl :: "string option"
  score :: "real option"

text \<open>
  What the crawler calls and the repository does not contain: the URL parser of the
  platform, the two functions of the extractor, and the classification service. The
  page extraction and the service answer for the outside world, so they also take the
  number of pages fetched before the call.
\<close>

record platform =
  parse_url :: "string \<Rightarrow> URL option"
  extractLinksFromUrl :: "nat \<Rightarrow> string \<Rightarrow> PageContent option"
  preFilterLinks :: "ExtractedLink list \<Rightarrow> string \<Rightarrow> ExtractedLink list"
  chatCompletion :: "nat \<Rightarrow> classifier"

text \<open>
  The variables of \<open>crawl\<close>. Two of the fields are histories: \<open>progress\<close> holds the
  reports handed to \<open>onProgress\<close>, one before every fetch, and \<open>dequeued\<close> holds the items
  that \<open>queue.shift()\<close> returned. Nothing in the loop reads them.
\<close>

record crawl_state =
  visited :: "string set"
  queue :: "QueueItem list"
  pages :: "PageContent list"
  allRankedLinks :: "RankedLink list"
  errors :: "(string \<times> string) list"
  progress :: "CrawlProgress list"
  dequeued :: "QueueItem list"









text \<open>
  The notions in which the properties of the loop are stated. The fetched URLs are the
  URLs of the progress reports, in the order of the fetches. A state is consistent in
  its fetches when no URL was fetched twice, the visited set holds exactly the fetched
  URLs, and the pages are the successful answers of the extractor, in order. It is
  consistent in its depths when every item that is or was in the queue has a depth
  within \<open>maxDepth\<close> and is the seed item at depth 0 or the child, one level deeper, of
  a fetch at a depth below \<open>maxDepth\<close>, and every fetch was at a depth within
  \<open>maxDepth\<close>.
\<close>

definition fetched_urls :: "crawl_state \<Rightarrow> string list" where
  "fetched_urls s = map currentUrl (progress s)"

definition fetch_consistent :: "platform \<Rightarrow> crawl_state \<Rightarrow> bool" where
  "fetch_consistent env s =
     (distinct (fetched_urls s)
      \<and> visited s = set (fetched_urls s)
      \<and> length (fetched_urls s) = length (pages s) + length (errors s)
      \<and> pages s = List.map_filter (\<lambda>(i, u). extractLinksFromUrl env i u)
                     (enumerate 0 (fetched_urls s)))"

definition item_origin :: "CrawlerConfig \<Rightarrow> crawl_state \<Rightarrow> QueueItem \<Rightarrow> bool" where
  "item_origin cfg s i =
     ((parentUrl i = None \<and> depth i = 0)
      \<or> (\<exists>p \<in> set (progress s). parentUrl i = Some (currentUrl p)
            \<and> depth i = currentDepth p + 1 \<and> currentDepth p < maxDepth cfg))"

definition depth_consistent :: "CrawlerConfig \<Rightarrow> crawl_state \<Rightarrow> bool" where
  "depth_consistent cfg s =
     ((\<forall>i \<in> set (queue s) \<union> set (dequeued s). depth i \<le> maxDepth cfg \<and> item_origin cfg s i)
      \<and> (\<forall>p \<in> set (progress s). currentDepth p \<le> maxDepth cfg))"



text \<open>The result of \<open>crawl\<close>; the duration, a reading of the clock, is left out.\<close>

record CrawlStats =
  totalPagesProcessed :: nat
  totalLinksFound :: nat
  totalHighValueLinks :: nat
  errors :: "(string \<times> string) list"

record CrawlResult =
  pages :: "PageContent list"
  rankedLinks :: "RankedLink list"
  stats :: CrawlStats



text \<open>A site of two pages that link to each other, and a configuration without classifier.\<close>

definition two_cycle_site :: platform where
  "two_cycle_site =
     \<lparr>parse_url = parseURL,
      extractLinksFromUrl = (\<lambda>fetched u.
         if u = ''https://city.gov/budget''
         then Some \<lparr>page_url = u, page_title = ''Budget'', markdown = ''Budget 2025'',
                    links = [\<lparr>url = ''https://city.gov/finance/'', anchorText = ''Finance'',
                               linkContext = ''Dept'',
                               attributes = \<lparr>attr_title = None, attr_rel = None, attr_type = None\<rparr>\<rparr>]\<rparr>
         else if u = ''https://city.gov/finance''
         then Some \<lparr>page_url = u, page_title = ''Finance'', markdown = ''Finance department'',
                    links = [\<lparr>url = ''https://city.gov/budget#top'', anchorText = ''Budget'',
                               linkContext = ''Back'',
                               attributes = \<lparr>attr_title = None, attr_rel = None, attr_type = None\<rparr>\<rparr>]\<rparr>
         else None),
      preFilterLinks = (\<lambda>ls u. ls),
      chatCompletion = (\<lambda>fetched. failing_classifier)\<rparr>"

definition heuristic_config :: CrawlerConfig where
  "heuristic_config =
     \<lparr>maxDepth = 2, maxPages = 50, minScoreToFollow = 0.5, requestDelayMs = 1000,
      concurrency = 1, useLlmRanking = False,
      rankerConfig = \<lparr>opt_priorityKeywords = None, opt_minRelevanceScore = None,
                       opt_batchSize = None\<rparr>,
      sameDomainOnly = True\<rparr>"

text \<open>The same configuration with the classifier switched on and a batch size of zero.\<close>

definition zero_batch_config :: CrawlerConfig where
  "zero_batch_config =
     \<lparr>maxDepth = 2, maxPages = 50, minScoreToFollow = 0.5, requestDelayMs = 1000,
      concurrency = 1, useLlmRanking = True,
      rankerConfig = \<lparr>opt_priorityKeywords = None, opt_minRelevanceScore = None,
                       opt_batchSize = Some 0\<rparr>,
      sameDomainOnly = True\<rparr>"

section \<open>Evaluation of the character classes\<close>

text \<open>The character classes on the bits of a character, for evaluation.\<close>

lemma is_upper_code [code]:
  "is_upper (Char b0 b1 b2 b3 b4 b5 b6 b7) =
     (\<not> b7 \<and> b6 \<and> \<not> b5 \<and> (b0 \<or> b1 \<or> b2 \<or> b3 \<or> b4)
      \<and> \<not> (b4 \<and> b3 \<and> (b2 \<or> (b1 \<and> b0))))"
  by (cases b0; cases b1; cases b2; cases b3; cases b4; cases b5; cases b6; cases b7;
      simp add: is_upper_def)

lemma is_lower_code [code]:
  "is_lower (Char b0 b1 b2 b3 b4 b5 b6 b7) =
     (\<not> b7 \<and> b6 \<and> b5 \<and> (b0 \<or> b1 \<or> b2 \<or> b3 \<or> b4)
      \<and> \<not> (b4 \<and> b3 \<and> (b2 \<or> (b1 \<and> b0))))"
  by (cases b0; cases b1; cases b2; cases b3; cases b4; cases b5; cases b6; cases b7;
      simp add: is_lower_def)

lemma is_digit_code [code]:
  "is_digit (Char b0 b1 b2 b3 b4 b5 b6 b7) =
     (\<not> b7 \<and> \<not> b6 \<and> b5 \<and> b4 \<and> \<not> (b3 \<and> (b2 \<or> b1)))"
  by (cases b0; cases b1; cases b2; cases b3; cases b4; cases b5; cases b6; cases b7;
      simp add: is_digit_def)

lemma is_ascii_code [code]:
  "is_ascii (Char b0 b1 b2 b3 b4 b5 b6 b7) = (\<not> b7)"
  by (cases b0; cases b1; cases b2; cases b3; cases b4; cases b5; cases b6; cases b7;
      simp add: is_ascii_def)

lemma lower_char_code [code]:
  "lower_char (Char b0 b1 b2 b3 b4 b5 b6 b7) =
     (if is_upper (Char b0 b1 b2 b3 b4 b5 b6 b7) then Char b0 b1 b2 b3 b4 True b6 b7
      else Char b0 b1 b2 b3 b4 b5 b6 b7)"
  by (cases b0; cases b1; cases b2; cases b3; cases b4; cases b5; cases b6; cases b7;
      simp add: lower_char_def is_upper_def char_of_def bit_Suc_0_iff)



section \<open>Properties of the robots.txt handling\<close>












text \<open>
  Claim C10. A string that the URL parser rejects is never allowed, whatever the list of
  disallowed paths is.
\<close>

theorem unparseable_url_is_not_allowed:
  "parse u = None \<Longrightarrow> isUrlAllowed parse u rules = False"
  by (simp add: isUrlAllowed_def)

theorem unparseable_url_is_not_allowed_witness:
  "parseURL ''not a url'' = None \<and> isUrlAllowed parseURL ''not a url'' [] = False"
proof -
  have h: "parseURL ''not a url'' = None"
    by code_simp
  from h unparseable_url_is_not_allowed [of parseURL "''not a url''" "[]"] show ?thesis
    by simp
qed

section \<open>Properties of the link ranker\<close>
































section \<open>Properties of the document chunker\<close>

lemma index_range_length:
  "map chunkIndex chunks = [a ..< a + n] \<Longrightarrow> length chunks = n"
proof -
  assume "map chunkIndex chunks = [a ..< a + n]"
  then have "length (map chunkIndex chunks) = length [a ..< a + n]"
    by (rule arg_cong)
  then show ?thesis by simp
qed

lemma splitLargeSection_loop_index:
  "map chunkIndex chunks = [startIndex ..< startIndex + chunkNum] \<Longrightarrow>
   map chunkIndex (splitLargeSection_loop ct t startIndex ps chunks cur toks chunkNum)
     = [startIndex ..< startIndex + length (splitLargeSection_loop ct t startIndex ps chunks cur toks chunkNum)]"
proof (induction ps arbitrary: chunks cur toks chunkNum)
  case Nil
  from index_range_length [OF Nil] Nil show ?case by simp
next
  case (Cons para ps)
  have push: "map chunkIndex (chunks @ [\<lparr>sectionTitle = chunk_title t chunkNum, content = trim cur,
            tokenCount = toks, chunkIndex = startIndex + chunkNum\<rparr>])
        = [startIndex ..< startIndex + (chunkNum + 1)]"
    using Cons.prems by simp
  show ?case
  proof (cases "cur = []")
    case True
    with Cons.IH [OF Cons.prems] show ?thesis
      by (simp add: Let_def)
  next
    case False
    show ?thesis
    proof (cases "toks + ct para > MAX_CHUNK_TOKENS")
      case True
      with Cons.IH [OF push] False show ?thesis
        by (simp add: Let_def)
    next
      case False
      with Cons.IH [OF Cons.prems] show ?thesis
        by (simp add: Let_def)
    qed
  qed
qed

lemma splitLargeSection_index:
  "map chunkIndex (splitLargeSection ct t c startIndex)
     = [startIndex ..< startIndex + length (splitLargeSection ct t c startIndex)]"
  unfolding splitLargeSection_def
  by (rule splitLargeSection_loop_index) simp

lemma chunkDocument_loop_index:
  "map chunkIndex chunks = [0 ..< n] \<Longrightarrow>
   map chunkIndex (chunkDocument_loop ct ss chunks n)
     = [0 ..< length (chunkDocument_loop ct ss chunks n)]"
proof (induction ss arbitrary: chunks n)
  case Nil
  from index_range_length [of chunks 0 n] Nil show ?case by simp
next
  case (Cons s ss)
  show ?case
  proof (cases "ct (md_section.content s) > MAX_CHUNK_TOKENS")
    case True
    define sub where "sub = splitLargeSection ct (title s) (md_section.content s) n"
    have "map chunkIndex sub = [n ..< n + length sub]"
      unfolding sub_def by (rule splitLargeSection_index)
    moreover have "[0 ..< n + length sub] = [0 ..< n] @ [n ..< n + length sub]"
      by (rule upt_add_eq_append) simp
    ultimately have "map chunkIndex (chunks @ sub) = [0 ..< n + length sub]"
      using Cons.prems by simp
    from Cons.IH [OF this] True show ?thesis
      by (simp add: Let_def sub_def)
  next
    case False
    have "map chunkIndex (chunks @ [\<lparr>sectionTitle = title s, content = md_section.content s,
            tokenCount = ct (md_section.content s), chunkIndex = n\<rparr>]) = [0 ..< n + 1]"
      using Cons.prems by simp
    from Cons.IH [OF this] False show ?thesis
      by (simp add: Let_def)
  qed
qed

text \<open>
  Claim C4. For every tokenizer and every markdown input, the chunk indices of the
  chunks that \<open>chunkDocument\<close> returns are \<open>0, 1, \<dots>, n - 1\<close> in the order of the
  output, where \<open>n\<close> is the number of chunks: they are counted through the whole
  document, not per section.
\<close>

theorem chunkDocument_index_dense:
  "map chunkIndex (chunkDocument countTokens md)
     = [0 ..< length (chunkDocument countTokens md)]"
proof (cases "length (trim md) = 0")
  case True
  then show ?thesis by (simp add: chunkDocument_def)
next
  case False
  then show ?thesis
    using chunkDocument_loop_index [of "[]" 0] by (simp add: chunkDocument_def)
qed

lemma trim_clean:
  assumes "s \<noteq> []" "\<not> is_space (hd s)" "\<not> is_space (last s)"
  shows "trim s = s"
proof (cases s rule: rev_cases)
  case Nil
  with assms(1) show ?thesis by simp
next
  case (snoc xs x)
  have a: "dropWhile is_space s = s"
    using assms(1,2) by (cases s) simp_all
  have "dropWhile is_space (rev s) = rev s"
    using assms(3) snoc by simp
  with a show ?thesis by (simp add: trim_def)
qed

lemma trim_nonempty:
  assumes "s \<noteq> []" "\<not> is_space (last s)"
  shows "trim s \<noteq> []"
proof (cases s rule: rev_cases)
  case Nil
  with assms(1) show ?thesis by simp
next
  case (snoc xs x)
  with assms(2) have x: "\<not> is_space x" by simp
  obtain ys where ys: "dropWhile is_space s = ys @ [x]"
    using x snoc by (cases "\<forall>y\<in>set xs. is_space y") (auto simp: dropWhile_append)
  have "dropWhile is_space (rev (dropWhile is_space s)) = x # rev ys"
    using x by (simp add: ys)
  then show ?thesis by (simp add: trim_def)
qed

lemma header_matches_no_hash:
  "CHR ''#'' \<notin> set s \<Longrightarrow> header_matches pos bol 0 s = []"
proof (induction s arbitrary: pos bol)
  case Nil
  then show ?case by simp
next
  case (Cons c cs)
  then have "c \<noteq> CHR ''#''"
    by auto
  then have "match_header (c # cs) = None"
    by (simp add: match_header_def header_hashes_def startsWith_def)
  with Cons show ?case by simp
qed

lemma split_blank_lines_plain:
  "CHR 0x0A \<notin> set s \<Longrightarrow> split_blank_lines k s = [s]"
  by (induction s arbitrary: k) auto

lemma split_blank_lines_two:
  "CHR 0x0A \<notin> set a \<Longrightarrow> CHR 0x0A \<notin> set b \<Longrightarrow>
   split_blank_lines False (a @ CHR 0x0A # CHR 0x0A # b) = [a, b]"
  by (induction a) (auto simp: split_blank_lines_plain)

lemma chunkDocument_two_paragraphs:
  assumes a: "a \<noteq> []" "\<not> is_space (hd a)" "\<not> is_space (last a)"
      "CHR 0x0A \<notin> set a" "CHR ''#'' \<notin> set a"
    and b: "b \<noteq> []" "\<not> is_space (hd b)" "\<not> is_space (last b)"
      "CHR 0x0A \<notin> set b" "CHR ''#'' \<notin> set b"
    and large: "ct (a @ [CHR 0x0A, CHR 0x0A] @ b) > MAX_CHUNK_TOKENS"
    and fit: "ct a \<le> MAX_CHUNK_TOKENS" "ct b \<le> MAX_CHUNK_TOKENS"
    and together: "ct a + ct b > MAX_CHUNK_TOKENS"
  shows "chunkDocument ct (a @ [CHR 0x0A, CHR 0x0A] @ b) =
     [\<lparr>sectionTitle = ''Document'', content = a, tokenCount = ct a, chunkIndex = 0\<rparr>,
      \<lparr>sectionTitle = ''Document (continued)'',
        content = trim (join '' '' (slice_last (OVERLAP_TOKENS div 2) (split_ws False [] a))
                    @ [CHR 0x0A, CHR 0x0A] @ b),
        tokenCount = ct (join '' '' (slice_last (OVERLAP_TOKENS div 2) (split_ws False [] a))
                    @ [CHR 0x0A, CHR 0x0A] @ b),
        chunkIndex = 1\<rparr>]"
proof -
  let ?md = "a @ [CHR 0x0A, CHR 0x0A] @ b"
  let ?new = "join '' '' (slice_last (OVERLAP_TOKENS div 2) (split_ws False [] a))
                    @ [CHR 0x0A, CHR 0x0A] @ b"
  have md: "trim ?md = ?md"
    using a(1,2) b(1,3) by (intro trim_clean) (simp_all add: hd_append)
  have "CHR ''#'' \<notin> set ?md"
    using a(5) b(5) by simp
  then have "header_matches 0 True 0 ?md = []"
    by (rule header_matches_no_hash)
  then have sections: "mergeSmallSections ct (splitByHeaders ?md)
      = [\<lparr>title = ''Document'', content = ?md\<rparr>]"
    by (simp add: splitByHeaders_def mergeSmallSections_def md del: append.simps)
  have paras: "splitByParagraphs ?md = [a, b]"
    using a b by (simp add: splitByParagraphs_def split_blank_lines_two trim_clean)
  have expanded: "expandParagraphs ct [a, b] = [a, b]"
    using fit by (simp add: expandParagraphs_def)
  have new: "trim ?new \<noteq> []"
    using b(1,3) by (intro trim_nonempty) simp_all
  have "splitLargeSection ct ''Document'' ?md 0 =
     [\<lparr>sectionTitle = ''Document'', content = a, tokenCount = ct a, chunkIndex = 0\<rparr>,
      \<lparr>sectionTitle = ''Document (continued)'', content = trim ?new,
        tokenCount = ct ?new, chunkIndex = 1\<rparr>]"
    unfolding splitLargeSection_def paras expanded
    using a(1) together new
    by (simp add: Let_def chunk_title_def trim_clean [OF a(1-3)])
  with sections large md a(1) show ?thesis
    by (simp add: chunkDocument_def Let_def del: append.simps)
qed

lemma overlap_of_short_paragraph:
  "join '' '' (slice_last (OVERLAP_TOKENS div 2) (split_ws False [] ''ab cd'')) = ''ab cd''"
  by code_simp

text \<open>
  A document of two paragraphs under the tokenizer that makes every character a token:
  the first paragraph has 5 tokens, the second is 333 words of two letters, 998 tokens.
\<close>

lemma chunkDocument_short_then_long:
  "chunkDocument length
     (''ab cd'' @ [CHR 0x0A, CHR 0x0A] @ (''bb '' @ concat (replicate 331 ''bb '') @ ''bb''))
   = [\<lparr>sectionTitle = ''Document'', content = ''ab cd'', tokenCount = 5, chunkIndex = 0\<rparr>,
      \<lparr>sectionTitle = ''Document (continued)'',
        content = trim (''ab cd'' @ [CHR 0x0A, CHR 0x0A]
                    @ (''bb '' @ concat (replicate 331 ''bb '') @ ''bb'')),
        tokenCount = 1005, chunkIndex = 1\<rparr>]"
proof -
  let ?a = "''ab cd''"
  let ?b = "''bb '' @ concat (replicate 331 ''bb '') @ ''bb''"
  have len: "length ?b = 998"
    by (simp add: length_concat sum_list_replicate)
  have set_b: "set ?b = {CHR ''b'', CHR '' ''}"
    by auto
  have cd: "chunkDocument length (?a @ [CHR 0x0A, CHR 0x0A] @ ?b) =
     [\<lparr>sectionTitle = ''Document'', content = ?a, tokenCount = length ?a, chunkIndex = 0\<rparr>,
      \<lparr>sectionTitle = ''Document (continued)'',
        content = trim (join '' '' (slice_last (OVERLAP_TOKENS div 2) (split_ws False [] ?a))
                    @ [CHR 0x0A, CHR 0x0A] @ ?b),
        tokenCount = length (join '' '' (slice_last (OVERLAP_TOKENS div 2) (split_ws False [] ?a))
                    @ [CHR 0x0A, CHR 0x0A] @ ?b),
        chunkIndex = 1\<rparr>]"
  proof (rule chunkDocument_two_paragraphs)
    show "?b \<noteq> []" by simp
    show "\<not> is_space (hd ?b)" by (simp add: is_space_def)
    show "\<not> is_space (last ?b)" by (simp add: is_space_def)
    show "CHR 0x0A \<notin> set ?b" unfolding set_b by simp
    show "CHR ''#'' \<notin> set ?b" unfolding set_b by simp
    show "MAX_CHUNK_TOKENS < length (?a @ [CHR 0x0A, CHR 0x0A] @ ?b)"
      using len by (simp add: MAX_CHUNK_TOKENS_def)
    show "length ?b \<le> MAX_CHUNK_TOKENS"
      using len by (simp add: MAX_CHUNK_TOKENS_def)
    show "MAX_CHUNK_TOKENS < length ?a + length ?b"
      using len by (simp add: MAX_CHUNK_TOKENS_def)
  qed (simp_all add: is_space_def MAX_CHUNK_TOKENS_def)
  show ?thesis
    unfolding cd [unfolded overlap_of_short_paragraph]
    using len by simp
qed

text \<open>
  Claim C4 on that document: two chunks, with the indices 0 and 1.
\<close>

theorem chunkDocument_index_dense_witness:
  "map chunkIndex (chunkDocument length
     (''ab cd'' @ [CHR 0x0A, CHR 0x0A] @ (''bb '' @ concat (replicate 331 ''bb '') @ ''bb'')))
   = [0, 1]"
proof -
  have "length (chunkDocument length
     (''ab cd'' @ [CHR 0x0A, CHR 0x0A] @ (''bb '' @ concat (replicate 331 ''bb '') @ ''bb''))) = 2"
    unfolding chunkDocument_short_then_long by simp
  with chunkDocument_index_dense [of length
     "''ab cd'' @ [CHR 0x0A, CHR 0x0A] @ (''bb '' @ concat (replicate 331 ''bb '') @ ''bb'')"]
  show ?thesis
    by (simp add: numeral_2_eq_2)
qed

text \<open>
  Claim C5 fails on the code. In \<open>splitLargeSection\<close> the chunk that follows a closed
  chunk starts with the overlap words, a blank line and the next paragraph, and its
  token count is not compared with \<open>MAX_CHUNK_TOKENS\<close>. On the document above no word,
  sentence or paragraph has more than 998 tokens, yet the continuation chunk is
  returned with 1005 tokens.
\<close>

theorem chunkDocument_overlap_exceeds_max:
  "map (\<lambda>c. (sectionTitle c, tokenCount c, chunkIndex c))
     (chunkDocument length
        (''ab cd'' @ [CHR 0x0A, CHR 0x0A] @ (''bb '' @ concat (replicate 331 ''bb '') @ ''bb'')))
   = [(''Document'', 5, 0), (''Document (continued)'', 1005, 1)]
   \<and> MAX_CHUNK_TOKENS = 1000"
  unfolding chunkDocument_short_then_long by (simp add: MAX_CHUNK_TOKENS_def)

end
